theory Spec2Isabelle
  imports
    Complex_Main
    "HOL-Library.Sublist"
    "HOL-Library.Product_Lexorder"
    "HOL-Library.Multiset"
begin

section \<open>Data model\<close>

text \<open>
  The program (\<^verbatim>\<open>project.py\<close>) searches scanned pages for a phrase, finds the faces on
  the pages that contain it and tiles them into a contact sheet. Its external
  collaborators (OpenCV's colour conversion and cascade detector, the OCR engine, PIL's
  resampling and font rendering) are parameters of the model; everything the program
  computes itself is a definition below, in the order of the source.
\<close>

text \<open>
  A bounding box is a row \<^verbatim>\<open>[x, y, w, h]\<close> of the array the detector returns. The
  coordinates are pixel positions inside one image, far from the bounds of the 32-bit
  integers numpy stores them in, so they are modelled as unbounded integers.
\<close>

type_synonym box = "int \<times> int \<times> int \<times> int"

text \<open>What the program can raise on the paths modelled here. An unbound local carries the
  source line of the read that fails.\<close>

datatype error = KeyError string | UnboundLocalError nat | TypeError

text \<open>A PIL image in mode RGB: its size and the colour of every pixel (column, row).\<close>

type_synonym colour = "nat \<times> nat \<times> nat"

record pil_image =
  width :: nat
  height :: nat
  pixel :: "nat \<Rightarrow> nat \<Rightarrow> colour"

definition black :: colour where
  "black = (0, 0, 0)"

definition white :: colour where
  "white = (255, 255, 255)"

text \<open>
  The image-information dictionary of one page. The keys \<^verbatim>\<open>'title'\<close>, \<^verbatim>\<open>'image'\<close> and
  \<^verbatim>\<open>'cv'\<close> are there from the start; \<^verbatim>\<open>'gray'\<close> and \<^verbatim>\<open>'text'\<close> are added by
  \<^verbatim>\<open>cvt_color\<close> and \<^verbatim>\<open>get_text\<close>, so they are optional fields.
\<close>

record ('a, 'g) document =
  doc_title :: string
  doc_image :: pil_image
  doc_cv :: 'a
  doc_gray :: "'g option"
  doc_text :: "string option"

datatype cascade = face_cascade | eye_cascade

text \<open>
  The external collaborators: \<^verbatim>\<open>cv.cvtColor(_, COLOR_BGR2GRAY)\<close>,
  \<^verbatim>\<open>cascade.detectMultiScale\<close> (image, scale factor, minimum size, maximum size, minimum
  neighbours), \<^verbatim>\<open>pytesseract.image_to_string\<close>, \<^verbatim>\<open>Image.thumbnail\<close> and the pixels
  \<^verbatim>\<open>ImageDraw.text\<close> leaves on a canvas (it never changes the size of the canvas).
\<close>

record ('a, 'g) collaborators =
  cvtColor :: "'a \<Rightarrow> 'g"
  detectMultiScale :: "cascade \<Rightarrow> 'g \<Rightarrow> real \<Rightarrow> nat \<times> nat \<Rightarrow> nat \<times> nat \<Rightarrow> nat \<Rightarrow> box list"
  image_to_string :: "'g \<Rightarrow> string"
  thumbnail :: "pil_image \<Rightarrow> nat \<times> nat \<Rightarrow> pil_image"
  text_pixels :: "pil_image \<Rightarrow> nat \<times> nat \<Rightarrow> string \<Rightarrow> colour \<Rightarrow> nat \<Rightarrow> nat \<Rightarrow> colour"

section \<open>Preparing the pages\<close>

text \<open>\<^verbatim>\<open>cvt_color\<close>: \<^verbatim>\<open>img['gray'] = cv.cvtColor(img['cv'], cv.COLOR_BGR2GRAY)\<close> for every page.
  The dictionaries are changed in place; the model returns the changed list.\<close>

definition cvt_color ::
  "('a, 'g) collaborators \<Rightarrow> ('a, 'g) document list \<Rightarrow> ('a, 'g) document list" where
  "cvt_color env img_list =
     map (\<lambda>img. img\<lparr>doc_gray := Some (cvtColor env (doc_cv img))\<rparr>) img_list"

text \<open>\<^verbatim>\<open>get_text\<close>: \<^verbatim>\<open>image['text'] = pytesseract.image_to_string(image['gray'])\<close>; a page
  without the key \<^verbatim>\<open>'gray'\<close> raises.\<close>

fun get_text ::
  "('a, 'g) collaborators \<Rightarrow> ('a, 'g) document list \<Rightarrow> error + ('a, 'g) document list" where
  "get_text env [] = Inr []"
| "get_text env (img # img_list) =
     (case doc_gray img of
        None \<Rightarrow> Inl (KeyError ''gray'')
      | Some g \<Rightarrow>
          (case get_text env img_list of
             Inl e \<Rightarrow> Inl e
           | Inr rest \<Rightarrow> Inr (img\<lparr>doc_text := Some (image_to_string env g)\<rparr> # rest)))"

section \<open>Finding faces\<close>

text \<open>\<^verbatim>\<open>get_bounding_boxes\<close> passes its arguments to the detector, with the maximum size
  \<^verbatim>\<open>(300, 300)\<close>.\<close>

definition get_bounding_boxes ::
  "('a, 'g) collaborators \<Rightarrow> 'g \<Rightarrow> cascade \<Rightarrow> nat \<times> nat \<Rightarrow> real \<Rightarrow> nat \<Rightarrow> box list" where
  "get_bounding_boxes env image_array casc minSize scale minN =
     detectMultiScale env casc image_array scale minSize (300, 300) minN"

text \<open>
  The inner loop of \<^verbatim>\<open>find_faces\<close> (lines 67 to 71): one face box against every eye box,
  appending the face box once for every eye box whose corner \<^verbatim>\<open>(testx, testy)\<close> passes
  \<^verbatim>\<open>x<=testx<=x1 and y<=testy<=y1\<close>.
\<close>

fun eyes_loop :: "box \<Rightarrow> box list \<Rightarrow> box list \<Rightarrow> box list" where
  "eyes_loop (x, y, w, h) [] face_list = face_list"
| "eyes_loop (x, y, w, h) ((testx, testy, w2, h2) # eyes) face_list =
     (let x1 = x + w; y1 = y + h in
      if x \<le> testx \<and> testx \<le> x1 \<and> y \<le> testy \<and> testy \<le> y1
      then eyes_loop (x, y, w, h) eyes (face_list @ [(x, y, w, h)])
      else eyes_loop (x, y, w, h) eyes face_list)"

text \<open>The outer loop (line 64), over the face boxes.\<close>

fun faces_loop :: "box list \<Rightarrow> box list \<Rightarrow> box list \<Rightarrow> box list" where
  "faces_loop [] eyes face_list = face_list"
| "faces_loop (f # faces) eyes face_list = faces_loop faces eyes (eyes_loop f eyes face_list)"

text \<open>
  Lines 63 to 75: the loops, \<^verbatim>\<open>sorted\<close> (lists of four numbers compare
  lexicographically, which is the order of \<^typ>\<open>box\<close>) and the keys of
  \<^verbatim>\<open>itertools.groupby\<close>, one for every run of equal neighbours.
\<close>

definition filter_faces :: "box list \<Rightarrow> box list \<Rightarrow> box list" where
  "filter_faces faces eyes =
     (let face_list = faces_loop faces eyes [];
          face_list_s = sort face_list;
          new_list = remdups_adj face_list_s
      in new_list)"

text \<open>\<^verbatim>\<open>find_faces\<close> with its default arguments, as \<^verbatim>\<open>do_project\<close> calls it.\<close>

definition find_faces :: "('a, 'g) collaborators \<Rightarrow> ('a, 'g) document \<Rightarrow> error + box list" where
  "find_faces env img =
     (case doc_gray img of
        None \<Rightarrow> Inl (KeyError ''gray'')
      | Some g \<Rightarrow>
          (let faces = get_bounding_boxes env g face_cascade (50, 50) (131 / 100) 3;
               eyes = get_bounding_boxes env g eye_cascade (10, 10) (118 / 100) 0
           in Inr (filter_faces faces eyes)))"

section \<open>Searching the text\<close>

text \<open>Python's \<^verbatim>\<open>sub in s\<close> on strings: \<^verbatim>\<open>sub\<close> starts at some position of \<^verbatim>\<open>s\<close>.\<close>

fun str_contains :: "string \<Rightarrow> string \<Rightarrow> bool" where
  "str_contains [] sub = (sub = [])"
| "str_contains (c # s) sub = (prefix sub (c # s) \<or> str_contains s sub)"

text \<open>\<^verbatim>\<open>phrase_in\<close>: the search phrase is a string, so \<^verbatim>\<open>str(search_phrase)\<close> is the
  phrase itself.\<close>

definition phrase_in :: "('a, 'g) document \<Rightarrow> string \<Rightarrow> error + bool" where
  "phrase_in img search_phrase =
     (case doc_text img of
        None \<Rightarrow> Inl (KeyError ''text'')
      | Some t \<Rightarrow> if str_contains t search_phrase then Inr True else Inr False)"

section \<open>Images\<close>

text \<open>\<^verbatim>\<open>Image.new('RGB', size)\<close>: a canvas of that size, every pixel black.\<close>

definition Image_new :: "nat \<times> nat \<Rightarrow> pil_image" where
  "Image_new sz = \<lparr>width = fst sz, height = snd sz, pixel = (\<lambda>x y. black)\<rparr>"

text \<open>
  \<^verbatim>\<open>canvas.paste(im, (x0, y0))\<close>: the pixels of \<^verbatim>\<open>im\<close> replace those of the canvas from
  \<^verbatim>\<open>(x0, y0)\<close> on; what falls outside the canvas is dropped, and the canvas keeps its
  size. The canvas is changed in place; the model returns the changed canvas.
\<close>

definition paste :: "pil_image \<Rightarrow> pil_image \<Rightarrow> nat \<times> nat \<Rightarrow> pil_image" where
  "paste canvas im pos =
     (case pos of (x0, y0) \<Rightarrow>
        canvas\<lparr>pixel :=
          (\<lambda>x y. if x0 \<le> x \<and> x < x0 + width im \<and> y0 \<le> y \<and> y < y0 + height im \<and>
                     x < width canvas \<and> y < height canvas
                  then pixel im (x - x0) (y - y0)
                  else pixel canvas x y)\<rparr>)"

text \<open>\<^verbatim>\<open>ImageDraw.rectangle([x0, y0, x1, y1], outline=c, fill=c)\<close>: the rectangle with
  both corners included, as far as it lies on the canvas.\<close>

definition rectangle :: "pil_image \<Rightarrow> nat \<times> nat \<times> nat \<times> nat \<Rightarrow> colour \<Rightarrow> pil_image" where
  "rectangle canvas xy fill =
     (case xy of (x0, y0, x1, y1) \<Rightarrow>
        canvas\<lparr>pixel :=
          (\<lambda>x y. if x0 \<le> x \<and> x \<le> x1 \<and> y0 \<le> y \<and> y \<le> y1 \<and>
                     x < width canvas \<and> y < height canvas
                  then fill
                  else pixel canvas x y)\<rparr>)"

text \<open>\<^verbatim>\<open>ImageDraw.text(xy, s, font=FONT, fill=c)\<close>: the font renderer decides the pixels.\<close>

definition draw_text ::
  "('a, 'g) collaborators \<Rightarrow> pil_image \<Rightarrow> nat \<times> nat \<Rightarrow> string \<Rightarrow> colour \<Rightarrow> pil_image" where
  "draw_text env canvas xy s fill = canvas\<lparr>pixel := text_pixels env canvas xy s fill\<rparr>"

text \<open>
  \<^verbatim>\<open>im.crop((left, upper, right, lower))\<close>: a new image of the size of the rectangle,
  holding the pixels of \<^verbatim>\<open>im\<close> there and black where the rectangle leaves \<^verbatim>\<open>im\<close>.
\<close>

definition crop :: "pil_image \<Rightarrow> int \<times> int \<times> int \<times> int \<Rightarrow> pil_image" where
  "crop im b =
     (case b of (left, upper, right, lower) \<Rightarrow>
        \<lparr>width = nat (right - left), height = nat (lower - upper),
         pixel =
           (\<lambda>i j. let sx = left + int i; sy = upper + int j in
                   if int i < right - left \<and> int j < lower - upper \<and>
                      0 \<le> sx \<and> sx < int (width im) \<and> 0 \<le> sy \<and> sy < int (height im)
                   then pixel im (nat sx) (nat sy)
                   else black)\<rparr>)"

section \<open>Cropping the faces\<close>

text \<open>\<^verbatim>\<open>get_faces\<close>: one crop \<^verbatim>\<open>(x, y, x+w, y+h)\<close> of the page's colour image for every
  box, in the order of the boxes.\<close>

fun get_faces :: "('a, 'g) document \<Rightarrow> box list \<Rightarrow> pil_image list" where
  "get_faces img [] = []"
| "get_faces img ((x, y, w, h) # boxes) =
     crop (doc_image img) (x, y, x + w, y + h) # get_faces img boxes"

text \<open>\<^verbatim>\<open>make_thumbnails\<close>: \<^verbatim>\<open>img.thumbnail((100, 100))\<close> on every image of the list.\<close>

definition make_thumbnails ::
  "('a, 'g) collaborators \<Rightarrow> pil_image list \<Rightarrow> pil_image list" where
  "make_thumbnails env img_list = map (\<lambda>img. thumbnail env img (100, 100)) img_list"

text \<open>
  \<^verbatim>\<open>search_page\<close>: the faces and the caption when the phrase is in the text; the function
  falls off its end otherwise and returns \<^verbatim>\<open>None\<close>.
\<close>

definition search_page ::
  "('a, 'g) document \<Rightarrow> string \<Rightarrow> box list \<Rightarrow> error + (pil_image list \<times> string) option" where
  "search_page img search_phrase faces =
     (case doc_text img of
        None \<Rightarrow> Inl (KeyError ''text'')
      | Some t \<Rightarrow>
          if str_contains t search_phrase
          then (let face_list = get_faces img faces;
                    results = ''Results found in file '' @ doc_title img
                in Inr (Some (face_list, results)))
          else Inr None)"

section \<open>The contact sheet\<close>

text \<open>
  Lines 162 to 173 of \<^verbatim>\<open>make_contact_sheet\<close>: the size of the canvas, the caption banner
  and, for an empty list, the message row. \<^verbatim>\<open>int(len(img_list)/5)\<close> is the integer
  quotient.
\<close>

definition sheet_canvas ::
  "('a, 'g) collaborators \<Rightarrow> pil_image list \<Rightarrow> string \<Rightarrow> pil_image" where
  "sheet_canvas env img_list results =
     (let rows = length img_list div 5;
          rows = (if length img_list mod 5 \<noteq> 0 then rows + 1 else rows);
          rows = (if length img_list = 0 then rows + 1 else rows);
          contact_sheet = Image_new (500, rows * 100 + 50);
          contact_sheet = rectangle contact_sheet (0, 0, 500, 50) white;
          contact_sheet = draw_text env contact_sheet (5, 5) results black
      in if length img_list = 0
         then (let contact_sheet = rectangle contact_sheet (0, 50, 500, 150) white
               in draw_text env contact_sheet (5, 55)
                    ''But there were no faces in that file!'' black)
         else contact_sheet)"

text \<open>
  The loop of lines 176 to 182: paste at the cursor \<^verbatim>\<open>(x, y)\<close>, then move the cursor a
  cell to the right, or to the start of the next row after the cell that ends at the
  right edge of the canvas.
\<close>

fun paste_loop :: "pil_image \<Rightarrow> nat \<Rightarrow> nat \<Rightarrow> pil_image list \<Rightarrow> pil_image" where
  "paste_loop contact_sheet x y [] = contact_sheet"
| "paste_loop contact_sheet x y (img # img_list) =
     (let contact_sheet = paste contact_sheet img (x, y) in
      if x + 100 = width contact_sheet
      then paste_loop contact_sheet 0 (y + 100) img_list
      else paste_loop contact_sheet (x + 100) y img_list)"

definition make_contact_sheet ::
  "('a, 'g) collaborators \<Rightarrow> pil_image list \<Rightarrow> string \<Rightarrow> pil_image" where
  "make_contact_sheet env img_list results =
     paste_loop (sheet_canvas env img_list results) 0 50 img_list"

text \<open>\<^verbatim>\<open>concatenate_images\<close>: a new canvas as wide as the first image and as high as both,
  the first image pasted at the top and the second below it.\<close>

definition concatenate_images :: "pil_image \<Rightarrow> pil_image \<Rightarrow> pil_image" where
  "concatenate_images img1 img2 =
     (let result = Image_new (width img1, height img1 + height img2);
          result = paste result img1 (0, 0);
          result = paste result img2 (0, height img1)
      in result)"

section \<open>The whole search\<close>

text \<open>
  The loop of \<^verbatim>\<open>do_project\<close> (lines 213 to 223) over the pages still to visit. The local
  \<^verbatim>\<open>contact_sheet\<close> is \<open>None\<close> until its first assignment; the first argument is the whole
  list, for \<^verbatim>\<open>img_list[0]\<close>, which exists whenever the loop body runs. \<^verbatim>\<open>img ==
  img_list[0]\<close> compares two dictionaries entry by entry; the model compares the records.
\<close>

fun project_loop ::
  "('a, 'g) collaborators \<Rightarrow> ('a, 'g) document list \<Rightarrow> string \<Rightarrow>
   ('a, 'g) document list \<Rightarrow> pil_image option \<Rightarrow> error + pil_image option" where
  "project_loop env img_list phrase_to_search [] contact_sheet = Inr contact_sheet"
| "project_loop env img_list phrase_to_search (img # todo) contact_sheet =
     (case find_faces env img of
        Inl e \<Rightarrow> Inl e
      | Inr faces \<Rightarrow>
          (case phrase_in img phrase_to_search of
             Inl e \<Rightarrow> Inl e
           | Inr False \<Rightarrow> project_loop env img_list phrase_to_search todo contact_sheet
           | Inr True \<Rightarrow>
               (case search_page img phrase_to_search faces of
                  Inl e \<Rightarrow> Inl e
                | Inr None \<Rightarrow> Inl TypeError
                | Inr (Some (images, results)) \<Rightarrow>
                    (let images = make_thumbnails env images in
                     if img = hd img_list
                     then project_loop env img_list phrase_to_search todo
                            (Some (make_contact_sheet env images results))
                     else (let temp_sheet = make_contact_sheet env images results in
                           case contact_sheet of
                             None \<Rightarrow> Inl (UnboundLocalError 223)
                           | Some sheet \<Rightarrow>
                               project_loop env img_list phrase_to_search todo
                                 (Some (concatenate_images sheet temp_sheet)))))))"

text \<open>
  \<^verbatim>\<open>do_project\<close>: prepare the pages, run the loop, return the local
  \<^verbatim>\<open>contact_sheet\<close> (line 224), which raises when the loop never assigned it.
\<close>

definition do_project ::
  "('a, 'g) collaborators \<Rightarrow> ('a, 'g) document list \<Rightarrow> string \<Rightarrow> error + pil_image" where
  "do_project env img_list phrase_to_search =
     (let img_list = cvt_color env img_list in
      case get_text env img_list of
        Inl e \<Rightarrow> Inl e
      | Inr img_list \<Rightarrow>
          (case project_loop env img_list phrase_to_search img_list None of
             Inl e \<Rightarrow> Inl e
           | Inr None \<Rightarrow> Inl (UnboundLocalError 224)
           | Inr (Some contact_sheet) \<Rightarrow> Inr contact_sheet))"

section \<open>The words of the specification\<close>

text \<open>
  The specification's containment test, in its own words: the top-left corner of the eye
  box \<open>e\<close> lies in the closed rectangle \<open>[x, x+w] \<times> [y, y+h]\<close> of the face box \<open>f\<close>.
\<close>

definition corner_inside :: "box \<Rightarrow> box \<Rightarrow> bool" where
  "corner_inside f e =
     (case f of (x, y, w, h) \<Rightarrow> case e of (ex, ey, ew, eh) \<Rightarrow>
        x \<le> ex \<and> ex \<le> x + w \<and> y \<le> ey \<and> ey \<le> y + h)"


text \<open>The specification's grid: thumbnail number \<open>i\<close> (from 0) goes to column \<open>i mod 5\<close> of
  row \<open>i div 5\<close>, cells of 100 by 100 pixels below the banner of 50.\<close>

definition cell :: "nat \<Rightarrow> nat \<times> nat" where
  "cell i = ((i mod 5) * 100, 50 + (i div 5) * 100)"

section \<open>The pages as the loop sees them\<close>

text \<open>The text \<^verbatim>\<open>do_project\<close> extracts from a page (the OCR of its gray image), and the
  page after \<^verbatim>\<open>cvt_color\<close> and \<^verbatim>\<open>get_text\<close> have stored the gray image and the text in
  it.\<close>

definition extracted_text :: "('a, 'g) collaborators \<Rightarrow> ('a, 'g) document \<Rightarrow> string" where
  "extracted_text env img = image_to_string env (cvtColor env (doc_cv img))"

definition prepared :: "('a, 'g) collaborators \<Rightarrow> ('a, 'g) document \<Rightarrow> ('a, 'g) document" where
  "prepared env img =
     img\<lparr>doc_gray := Some (cvtColor env (doc_cv img)), doc_text := Some (extracted_text env img)\<rparr>"

section \<open>Concrete inputs\<close>




text \<open>Collaborators for pages whose pixel array is the text written on them: the OCR reads
  it back, the detector finds no box.\<close>

definition reads_cv :: "(string, string) collaborators" where
  "reads_cv =
     \<lparr>cvtColor = (\<lambda>a. a),
      detectMultiScale = (\<lambda>casc g scale minSize maxSize minN. []),
      image_to_string = (\<lambda>g. g),
      thumbnail = (\<lambda>im sz. im),
      text_pixels = (\<lambda>im xy s fill. pixel im)\<rparr>"

definition page :: "string \<Rightarrow> string \<Rightarrow> (string, string) document" where
  "page name words = \<lparr>doc_title = name, doc_image = Image_new (30, 30), doc_cv = words,
     doc_gray = None, doc_text = None\<rparr>"

section \<open>The face filter\<close>

lemma set_eyes_loop:
  "set (eyes_loop f eyes face_list) =
     set face_list \<union> (if \<exists>e \<in> set eyes. corner_inside f e then {f} else {})"
proof (induction f eyes face_list rule: eyes_loop.induct)
  case (1 x y w h face_list)
  then show ?case by simp
next
  case (2 x y w h testx testy w2 h2 eyes face_list)
  then show ?case
    by (auto simp: corner_inside_def Let_def)
qed

lemma set_faces_loop:
  "set (faces_loop faces eyes face_list) =
     set face_list \<union> {f \<in> set faces. \<exists>e \<in> set eyes. corner_inside f e}"
  by (induction faces eyes face_list rule: faces_loop.induct) (auto simp: set_eyes_loop)

lemma set_filter_faces:
  "set (filter_faces faces eyes) = {f \<in> set faces. \<exists>e \<in> set eyes. corner_inside f e}"
  by (simp add: filter_faces_def set_faces_loop)

lemma distinct_remdups_adj_sorted:
  fixes xs :: "'a::linorder list"
  shows "sorted xs \<Longrightarrow> distinct (remdups_adj xs)"
  by (induction xs rule: remdups_adj.induct) auto

lemma sorted_filter_faces: "sorted (filter_faces faces eyes)"
  by (simp add: filter_faces_def sorted_remdups_adj)

lemma distinct_filter_faces: "distinct (filter_faces faces eyes)"
  by (simp add: filter_faces_def distinct_remdups_adj_sorted)







text \<open>
  Claim C9: the output of the face filter, and so the set of boxes it keeps, does not
  depend on the order in which the face boxes and the eye boxes are supplied.
\<close>

theorem filter_faces_order_invariant:
  assumes "mset faces' = mset faces" and "mset eyes' = mset eyes"
  shows "filter_faces faces' eyes' = filter_faces faces eyes"
proof -
  have "set faces' = set faces"
    using assms(1) by (rule mset_eq_setD)
  moreover have "set eyes' = set eyes"
    using assms(2) by (rule mset_eq_setD)
  ultimately have "set (filter_faces faces' eyes') = set (filter_faces faces eyes)"
    by (simp add: set_filter_faces)
  then show ?thesis
    by (intro sorted_distinct_set_unique sorted_filter_faces distinct_filter_faces)
qed

theorem filter_faces_order_invariant_witness:
  "filter_faces [(5, 0, 1, 1), (0, 0, 9, 9)] [(5, 0, 2, 2), (1, 1, 2, 2)] =
   filter_faces [(0, 0, 9, 9), (5, 0, 1, 1)] [(1, 1, 2, 2), (5, 0, 2, 2)]"
  by (rule filter_faces_order_invariant) simp_all




section \<open>The phrase test\<close>

lemma str_contains_iff: "str_contains s sub = (\<exists>pre post. s = pre @ sub @ post)"
proof -
  have "str_contains s sub = sublist sub s"
    by (induction s sub rule: str_contains.induct) (auto simp: sublist_Cons_right)
  then show ?thesis by (simp add: sublist_def)
qed

text \<open>
  Claim C10: \<^verbatim>\<open>phrase_in\<close> answers true exactly when the phrase occurs in the text of the
  page as it stands, character for character, with no change of case and no
  normalisation; the text \<^verbatim>\<open>chris is here\<close> does not match the phrase \<^verbatim>\<open>Chris\<close>.
\<close>

theorem phrase_in_substring:
  "phrase_in (img\<lparr>doc_text := Some t\<rparr>) search_phrase =
     Inr (\<exists>pre post. t = pre @ search_phrase @ post) \<and>
   phrase_in (img\<lparr>doc_text := Some ''chris is here''\<rparr>) ''Chris'' = Inr False"
  by (simp add: phrase_in_def str_contains_iff [symmetric])

section \<open>The contact sheet\<close>

lemma width_paste [simp]: "width (paste canvas im pos) = width canvas"
  by (simp add: paste_def split: prod.splits)

lemma height_paste [simp]: "height (paste canvas im pos) = height canvas"
  by (simp add: paste_def split: prod.splits)

lemma width_rectangle [simp]: "width (rectangle canvas xy fill) = width canvas"
  by (simp add: rectangle_def split: prod.splits)

lemma height_rectangle [simp]: "height (rectangle canvas xy fill) = height canvas"
  by (simp add: rectangle_def split: prod.splits)

lemma width_draw_text [simp]: "width (draw_text env canvas xy s fill) = width canvas"
  by (simp add: draw_text_def)

lemma height_draw_text [simp]: "height (draw_text env canvas xy s fill) = height canvas"
  by (simp add: draw_text_def)

lemma width_paste_loop [simp]: "width (paste_loop canvas x y img_list) = width canvas"
  by (induction canvas x y img_list rule: paste_loop.induct) (simp_all add: Let_def)

lemma height_paste_loop [simp]: "height (paste_loop canvas x y img_list) = height canvas"
  by (induction canvas x y img_list rule: paste_loop.induct) (simp_all add: Let_def)

lemma width_sheet_canvas: "width (sheet_canvas env img_list results) = 500"
  by (simp add: sheet_canvas_def Let_def Image_new_def)

lemma height_sheet_canvas:
  "height (sheet_canvas env img_list results) =
     (if length img_list = 0 then 1 else (length img_list + 4) div 5) * 100 + 50"
proof -
  have "length img_list mod 5 \<noteq> 0 \<Longrightarrow> (length img_list + 4) div 5 = length img_list div 5 + 1"
    by presburger
  moreover have "length img_list mod 5 = 0 \<Longrightarrow> (length img_list + 4) div 5 = length img_list div 5"
    by presburger
  ultimately show ?thesis
    by (simp add: sheet_canvas_def Let_def Image_new_def)
qed

lemma ceiling_fifth: "nat \<lceil>real n / 5\<rceil> = (n + 4) div 5"
proof -
  have "\<lceil>real n / 5\<rceil> = \<lceil>real_of_int (int n) / real_of_int 5\<rceil>" by simp
  also have "\<dots> = - (- int n div 5)" by (rule ceiling_divide_eq_div)
  also have "\<dots> = (int n + 4) div 5" by presburger
  finally have "\<lceil>real n / 5\<rceil> = int ((n + 4) div 5)" by (simp add: zdiv_int)
  then show ?thesis by simp
qed

text \<open>
  Claim C5: for \<open>n\<close> thumbnails the contact sheet is 500 wide and \<open>ceil(n/5) * 100 + 50\<close> high,
  an empty list still getting one row: 150 for none, 150 for five, 250 for six.
\<close>

theorem make_contact_sheet_size:
  "width (make_contact_sheet env img_list results) = 500 \<and>
   height (make_contact_sheet env img_list results) =
     (if length img_list = 0 then 1 else nat \<lceil>real (length img_list) / 5\<rceil>) * 100 + 50"
  by (simp add: make_contact_sheet_def width_sheet_canvas height_sheet_canvas ceiling_fifth)

theorem make_contact_sheet_size_witness:
  "\<forall>env results t1 t2 t3 t4 t5 t6.
     height (make_contact_sheet env [] results) = 150 \<and>
     height (make_contact_sheet env [t1, t2, t3, t4, t5] results) = 150 \<and>
     height (make_contact_sheet env [t1, t2, t3, t4, t5, t6] results) = 250"
proof (intro allI)
  fix env :: "('a, 'g) collaborators" and results and t1 t2 t3 t4 t5 t6 :: pil_image
  show "height (make_contact_sheet env [] results) = 150 \<and>
     height (make_contact_sheet env [t1, t2, t3, t4, t5] results) = 150 \<and>
     height (make_contact_sheet env [t1, t2, t3, t4, t5, t6] results) = 250"
    using make_contact_sheet_size [of env "[]" results]
      make_contact_sheet_size [of env "[t1, t2, t3, t4, t5]" results]
      make_contact_sheet_size [of env "[t1, t2, t3, t4, t5, t6]" results]
    by (simp add: ceiling_fifth)
qed

text \<open>The cursor after a paste at the cell of thumbnail \<open>k\<close> is the cell of thumbnail
  \<open>k + 1\<close>.\<close>

lemma next_cell:
  assumes "x = (k mod 5) * 100" and "y = 50 + (k div 5) * 100"
  shows "(if x + 100 = 500 then 0 else x + 100) = (Suc k mod 5) * 100"
    and "(if x + 100 = 500 then y + 100 else y) = 50 + (Suc k div 5) * 100"
proof -
  have "k mod 5 = 4 \<or> k mod 5 < 4" by presburger
  then show "(if x + 100 = 500 then 0 else x + 100) = (Suc k mod 5) * 100"
  proof
    assume m: "k mod 5 = 4"
    then have "Suc k mod 5 = 0" by presburger
    with m assms show ?thesis by simp
  next
    assume m: "k mod 5 < 4"
    then have "Suc k mod 5 = k mod 5 + 1" by presburger
    moreover have "x + 100 \<noteq> 500" using m assms by arith
    ultimately show ?thesis using assms by simp
  qed
  have "k mod 5 = 4 \<or> k mod 5 < 4" by presburger
  then show "(if x + 100 = 500 then y + 100 else y) = 50 + (Suc k div 5) * 100"
  proof
    assume m: "k mod 5 = 4"
    then have "Suc k div 5 = k div 5 + 1" by presburger
    with m assms show ?thesis by simp
  next
    assume m: "k mod 5 < 4"
    then have "Suc k div 5 = k div 5" by presburger
    moreover have "x + 100 \<noteq> 500" using m assms by arith
    ultimately show ?thesis using assms by simp
  qed
qed

lemma paste_loop_cells:
  "width canvas = 500 \<Longrightarrow> x = (k mod 5) * 100 \<Longrightarrow> y = 50 + (k div 5) * 100 \<Longrightarrow>
   paste_loop canvas x y img_list =
     foldl (\<lambda>c (img, pos). paste c img pos) canvas
       (zip img_list (map cell [k..<k + length img_list]))"
proof (induction img_list arbitrary: canvas k x y)
  case Nil
  then show ?case by simp
next
  case (Cons img img_list)
  let ?F = "\<lambda>c (img, pos). paste c img pos"
  let ?c = "paste canvas img (x, y)"
  let ?x = "if x + 100 = 500 then 0 else x + 100"
  let ?y = "if x + 100 = 500 then y + 100 else y"
  have w: "width ?c = 500" using Cons.prems(1) by simp
  have range: "[k..<k + length (img # img_list)] = k # [Suc k..<Suc k + length img_list]"
    using upt_rec [of k "k + length (img # img_list)"] by simp
  have here: "cell k = (x, y)"
    using Cons.prems(2,3) by (simp add: cell_def)
  have "paste_loop canvas x y (img # img_list) = paste_loop ?c ?x ?y img_list"
    using Cons.prems(1) by (simp add: Let_def)
  also have "\<dots> = foldl ?F ?c (zip img_list (map cell [Suc k..<Suc k + length img_list]))"
    by (rule Cons.IH [OF w next_cell [OF Cons.prems(2,3)]])
  also have "\<dots> =
      foldl ?F canvas (zip (img # img_list) (map cell (k # [Suc k..<Suc k + length img_list])))"
    by (simp add: here)
  finally show ?case by (simp only: range)
qed

text \<open>
  Claim C8: \<^verbatim>\<open>make_contact_sheet\<close> pastes the thumbnails in their order, five to a row, from
  left to right and from top to bottom: thumbnail \<open>i\<close> at \<open>x = (i mod 5) * 100\<close> and
  \<open>y = 50 + (i div 5) * 100\<close>, which is a cursor that starts at \<open>(0, 50)\<close>, moves 100 to the
  right after each paste and goes to the start of the next row at the right edge.
\<close>

theorem make_contact_sheet_grid:
  "make_contact_sheet env img_list results =
     foldl (\<lambda>c (img, pos). paste c img pos) (sheet_canvas env img_list results)
       (zip img_list (map cell [0..<length img_list]))"
  using paste_loop_cells [of "sheet_canvas env img_list results" 0 0 50 img_list]
  by (simp add: make_contact_sheet_def width_sheet_canvas)

text \<open>Seven thumbnails: the first five at \<open>y = 50\<close> and \<open>x = 0, 100, 200, 300, 400\<close>, the last
  two at \<open>y = 150\<close> and \<open>x = 0, 100\<close>.\<close>

theorem make_contact_sheet_grid_witness:
  "\<forall>env results t0 t1 t2 t3 t4 t5 t6.
     make_contact_sheet env [t0, t1, t2, t3, t4, t5, t6] results =
       paste (paste (paste (paste (paste (paste (paste
         (sheet_canvas env [t0, t1, t2, t3, t4, t5, t6] results)
         t0 (0, 50)) t1 (100, 50)) t2 (200, 50)) t3 (300, 50)) t4 (400, 50))
         t5 (0, 150)) t6 (100, 150)"
proof (intro allI)
  fix env :: "('a, 'g) collaborators" and results t0 t1 t2 t3 t4 t5 t6
  have "[0..<7] = [0, 1, 2, 3, 4, 5, 6::nat]" by (simp add: upt_rec)
  with make_contact_sheet_grid [of env "[t0, t1, t2, t3, t4, t5, t6]" results]
  show "make_contact_sheet env [t0, t1, t2, t3, t4, t5, t6] results =
       paste (paste (paste (paste (paste (paste (paste
         (sheet_canvas env [t0, t1, t2, t3, t4, t5, t6] results)
         t0 (0, 50)) t1 (100, 50)) t2 (200, 50)) t3 (300, 50)) t4 (400, 50))
         t5 (0, 150)) t6 (100, 150)"
    by (simp add: cell_def)
qed

section \<open>Stacking two sheets\<close>








section \<open>The whole search\<close>

lemma get_text_cvt_color:
  "get_text env (cvt_color env img_list) = Inr (map (prepared env) img_list)"
  by (induction img_list) (simp_all add: cvt_color_def prepared_def extracted_text_def)

lemma project_loop_skip:
  "\<not> str_contains (extracted_text env img) phrase \<Longrightarrow>
   project_loop env l phrase (prepared env img # todo) sheet =
     project_loop env l phrase todo sheet"
  by (simp add: find_faces_def phrase_in_def prepared_def Let_def)


lemma project_loop_no_match:
  "\<forall>img \<in> set todo. \<not> str_contains (extracted_text env img) phrase \<Longrightarrow>
   project_loop env l phrase (map (prepared env) todo) sheet = Inr sheet"
  by (induction todo) (simp_all add: project_loop_skip del: project_loop.simps(2))


lemma do_project_loop:
  "do_project env img_list phrase =
     (case project_loop env (map (prepared env) img_list) phrase
             (map (prepared env) img_list) None of
        Inl e \<Rightarrow> Inl e
      | Inr None \<Rightarrow> Inl (UnboundLocalError 224)
      | Inr (Some contact_sheet) \<Rightarrow> Inr contact_sheet)"
  by (simp add: do_project_def Let_def get_text_cvt_color)

text \<open>The model does return a sheet where the program does: for a single page that holds
  the phrase, the contact sheet of its faces.\<close>

lemma do_project_single_match:
  "str_contains (extracted_text env img) phrase \<Longrightarrow>
   do_project env [img] phrase =
     Inr (make_contact_sheet env
       (make_thumbnails env (get_faces (prepared env img)
          (filter_faces
             (get_bounding_boxes env (cvtColor env (doc_cv img)) face_cascade (50, 50)
                (131 / 100) 3)
             (get_bounding_boxes env (cvtColor env (doc_cv img)) eye_cascade (10, 10)
                (118 / 100) 0))))
       (''Results found in file '' @ doc_title img))"
  by (simp add: do_project_loop find_faces_def phrase_in_def search_page_def Let_def prepared_def)

text \<open>
  Claim C1 asks that \<^verbatim>\<open>do_project\<close> returns a well-defined output when no page holds the
  phrase, the empty collection included. The code does not: the loop never assigns
  \<^verbatim>\<open>contact_sheet\<close>, and the \<^verbatim>\<open>return\<close> of line 224 raises \<^verbatim>\<open>UnboundLocalError\<close>.
\<close>

theorem do_project_no_match:
  "\<forall>img \<in> set img_list. \<not> str_contains (extracted_text env img) phrase_to_search \<Longrightarrow>
   do_project env img_list phrase_to_search = Inl (UnboundLocalError 224)"
  by (simp add: do_project_loop project_loop_no_match)

theorem do_project_no_match_witness:
  "do_project reads_cv [] ''Chris'' = Inl (UnboundLocalError 224) \<and>
   do_project reads_cv [page ''a-0.png'' ''chris is here''] ''Chris'' =
     Inl (UnboundLocalError 224)"
proof -
  have "\<forall>img \<in> set []. \<not> str_contains (extracted_text reads_cv img) ''Chris''"
    by simp
  moreover have "\<forall>img \<in> set [page ''a-0.png'' ''chris is here''].
      \<not> str_contains (extracted_text reads_cv img) ''Chris''"
    by (simp add: extracted_text_def reads_cv_def page_def)
  ultimately show ?thesis
    by (simp only: do_project_no_match)
qed



end
